theory Spec2Isabelle
  imports Main "HOL-Library.Monad_Syntax"
begin

section \<open>Strings and numbers of the host language\<close>

text \<open>
  A JavaScript string is a sequence of UTF-16 code units. Every string literal of the
  sources (names, descriptions, messages, storage keys) consists of code units below
  256, so a string is modelled as a \<open>char list\<close>, one \<open>char\<close> per code unit; \<open>length\<close>
  is then the \<open>.length\<close> of the source. Code units from 256 on are outside the model.

  A JavaScript number is modelled on the integers, together with \<open>NaN\<close> (what
  \<open>valueAsNumber\<close> yields for an input that is not a number). Fractions, infinities
  and integers too large for a double to hold exactly are outside the model.
\<close>

datatype number = Num int | NaN

text \<open>
  \<open>SyntaxError\<close> is the exception of \<open>JSON.parse\<close>. \<open>OutsideModel\<close> marks a stored
  document that parses but is not a value of the types below; what the source does with
  it is not modelled.
\<close>

datatype error = SyntaxError | OutsideModel

definition is_digit :: "char \<Rightarrow> bool" where
  "is_digit c = (c \<in> set ''0123456789'')"

text \<open>\<open>Number.prototype.toString\<close> and \<open>String(n)\<close> on an integer: its decimal numeral.\<close>

fun nat_toString :: "nat \<Rightarrow> string" where
  "nat_toString n =
     (if n < 10 then [''0123456789'' ! n]
      else nat_toString (n div 10) @ [''0123456789'' ! (n mod 10)])"

declare nat_toString.simps [simp del]

definition int_toString :: "int \<Rightarrow> string" where
  "int_toString i = (if i < 0 then CHR ''-'' # nat_toString (nat (- i)) else nat_toString (nat i))"

section \<open>The platform's JSON\<close>

text \<open>
  \<open>JSON.parse\<close> accepts exactly the JSON grammar (ECMA-404) and throws \<open>SyntaxError\<close> on
  every other text. The parser below first cuts the text into tokens, one character at a
  time, and then runs a stack machine over the tokens; both are primitive recursive on
  their input. The text of a JSON string keeps its code units as natural numbers, since
  a \<open>\u\<close> escape can name any of them; a number keeps its lexeme.
\<close>

type_synonym units = "nat list"

datatype json =
    JNull
  | JBool bool
  | JNumber string
  | JString units
  | JArray "json list"
  | JObject "(units \<times> json) list"

datatype token =
    LBrace | RBrace | LBracket | RBracket | Colon | Comma
  | TString units | TNumber string | TTrue | TFalse | TNull

datatype numphase = NMinus | NZero | NInt | NDot | NFrac | NExp | NExpSign | NExpDigits

datatype lexmode =
    LDefault
  | LString units
  | LEscape units
  | LUnicode units "nat list"
  | LNumber numphase string
  | LLiteral string token

definition hexval :: "char \<Rightarrow> nat option" where
  "hexval c =
     (if is_digit c then Some (of_char c - 48)
      else if c \<in> set ''abcdef'' then Some (of_char c - 87)
      else if c \<in> set ''ABCDEF'' then Some (of_char c - 55)
      else None)"

definition lex_default :: "char \<Rightarrow> (lexmode \<times> token list) option" where
  "lex_default c =
     (if c \<in> {CHR '' '', CHR 0x09, CHR 0x0A, CHR 0x0D} then Some (LDefault, [])
      else if c = CHR ''{'' then Some (LDefault, [LBrace])
      else if c = CHR ''}'' then Some (LDefault, [RBrace])
      else if c = CHR ''['' then Some (LDefault, [LBracket])
      else if c = CHR '']'' then Some (LDefault, [RBracket])
      else if c = CHR '':'' then Some (LDefault, [Colon])
      else if c = CHR '','' then Some (LDefault, [Comma])
      else if c = CHR 0x22 then Some (LString [], [])
      else if c = CHR ''-'' then Some (LNumber NMinus [c], [])
      else if c = CHR ''0'' then Some (LNumber NZero [c], [])
      else if is_digit c then Some (LNumber NInt [c], [])
      else if c = CHR ''t'' then Some (LLiteral ''rue'' TTrue, [])
      else if c = CHR ''f'' then Some (LLiteral ''alse'' TFalse, [])
      else if c = CHR ''n'' then Some (LLiteral ''ull'' TNull, [])
      else None)"

text \<open>
  A number ends at the first character that cannot continue it; that character is then
  read as the start of the next token.
\<close>

definition lex_number_end :: "string \<Rightarrow> char \<Rightarrow> (lexmode \<times> token list) option" where
  "lex_number_end acc c =
     (case lex_default c of
        None \<Rightarrow> None
      | Some (m, ts) \<Rightarrow> Some (m, TNumber acc # ts))"

definition is_exp :: "char \<Rightarrow> bool" where
  "is_exp c = (c = CHR ''e'' \<or> c = CHR ''E'')"

fun lex_number :: "numphase \<Rightarrow> string \<Rightarrow> char \<Rightarrow> (lexmode \<times> token list) option" where
  "lex_number NMinus acc c =
     (if c = CHR ''0'' then Some (LNumber NZero (acc @ [c]), [])
      else if is_digit c then Some (LNumber NInt (acc @ [c]), [])
      else None)"
| "lex_number NZero acc c =
     (if c = CHR ''.'' then Some (LNumber NDot (acc @ [c]), [])
      else if is_exp c then Some (LNumber NExp (acc @ [c]), [])
      else lex_number_end acc c)"
| "lex_number NInt acc c =
     (if is_digit c then Some (LNumber NInt (acc @ [c]), [])
      else if c = CHR ''.'' then Some (LNumber NDot (acc @ [c]), [])
      else if is_exp c then Some (LNumber NExp (acc @ [c]), [])
      else lex_number_end acc c)"
| "lex_number NDot acc c =
     (if is_digit c then Some (LNumber NFrac (acc @ [c]), []) else None)"
| "lex_number NFrac acc c =
     (if is_digit c then Some (LNumber NFrac (acc @ [c]), [])
      else if is_exp c then Some (LNumber NExp (acc @ [c]), [])
      else lex_number_end acc c)"
| "lex_number NExp acc c =
     (if c = CHR ''+'' \<or> c = CHR ''-'' then Some (LNumber NExpSign (acc @ [c]), [])
      else if is_digit c then Some (LNumber NExpDigits (acc @ [c]), [])
      else None)"
| "lex_number NExpSign acc c =
     (if is_digit c then Some (LNumber NExpDigits (acc @ [c]), []) else None)"
| "lex_number NExpDigits acc c =
     (if is_digit c then Some (LNumber NExpDigits (acc @ [c]), [])
      else lex_number_end acc c)"

definition lex_escape :: "units \<Rightarrow> char \<Rightarrow> (lexmode \<times> token list) option" where
  "lex_escape acc c =
     (if c = CHR 0x22 then Some (LString (acc @ [0x22]), [])
      else if c = CHR 0x5C then Some (LString (acc @ [0x5C]), [])
      else if c = CHR ''/'' then Some (LString (acc @ [0x2F]), [])
      else if c = CHR ''b'' then Some (LString (acc @ [0x08]), [])
      else if c = CHR ''f'' then Some (LString (acc @ [0x0C]), [])
      else if c = CHR ''n'' then Some (LString (acc @ [0x0A]), [])
      else if c = CHR ''r'' then Some (LString (acc @ [0x0D]), [])
      else if c = CHR ''t'' then Some (LString (acc @ [0x09]), [])
      else if c = CHR ''u'' then Some (LUnicode acc [], [])
      else None)"

fun lex_step :: "lexmode \<Rightarrow> char \<Rightarrow> (lexmode \<times> token list) option" where
  "lex_step LDefault c = lex_default c"
| "lex_step (LString acc) c =
     (if c = CHR 0x22 then Some (LDefault, [TString acc])
      else if c = CHR 0x5C then Some (LEscape acc, [])
      else if (of_char c :: nat) < 0x20 then None
      else Some (LString (acc @ [of_char c]), []))"
| "lex_step (LEscape acc) c = lex_escape acc c"
| "lex_step (LUnicode acc hs) c =
     (case hexval c of
        None \<Rightarrow> None
      | Some h \<Rightarrow>
          (if length hs = 3
           then Some (LString (acc @ [foldl (\<lambda>v d. 16 * v + d) 0 (hs @ [h])]), [])
           else Some (LUnicode acc (hs @ [h]), [])))"
| "lex_step (LNumber p acc) c = lex_number p acc c"
| "lex_step (LLiteral [] t) c = None"
| "lex_step (LLiteral [x] t) c = (if c = x then Some (LDefault, [t]) else None)"
| "lex_step (LLiteral (x # y # ys) t) c = (if c = x then Some (LLiteral (y # ys) t, []) else None)"

fun lex_end :: "lexmode \<Rightarrow> token list option" where
  "lex_end LDefault = Some []"
| "lex_end (LNumber p acc) = (if p \<in> {NZero, NInt, NFrac, NExpDigits} then Some [TNumber acc] else None)"
| "lex_end _ = None"

fun lex :: "lexmode \<Rightarrow> string \<Rightarrow> token list option" where
  "lex m [] = lex_end m"
| "lex m (c # cs) =
     (case lex_step m c of
        None \<Rightarrow> None
      | Some (m', ts) \<Rightarrow> map_option ((@) ts) (lex m' cs))"

text \<open>
  The stack machine. A frame is an array or an object under construction; an object's
  frame holds the key whose value is being read.
\<close>

datatype frame = InArray "json list" | InMember "(units \<times> json) list" units

datatype pstate =
    PValue "frame list"
  | PArrayOpen "frame list"
  | PArrayNext "json list" "frame list"
  | PObjectOpen "frame list"
  | PObjectNext "(units \<times> json) list" "frame list"
  | PKey "(units \<times> json) list" "frame list"
  | PColon "(units \<times> json) list" units "frame list"
  | PDone json

fun complete :: "json \<Rightarrow> frame list \<Rightarrow> pstate" where
  "complete v [] = PDone v"
| "complete v (InArray xs # st) = PArrayNext (xs @ [v]) st"
| "complete v (InMember ms k # st) = PObjectNext (ms @ [(k, v)]) st"

fun parse_value :: "frame list \<Rightarrow> token \<Rightarrow> pstate option" where
  "parse_value st (TString s) = Some (complete (JString s) st)"
| "parse_value st (TNumber n) = Some (complete (JNumber n) st)"
| "parse_value st TTrue = Some (complete (JBool True) st)"
| "parse_value st TFalse = Some (complete (JBool False) st)"
| "parse_value st TNull = Some (complete JNull st)"
| "parse_value st LBracket = Some (PArrayOpen st)"
| "parse_value st LBrace = Some (PObjectOpen st)"
| "parse_value st _ = None"

fun parse_step :: "pstate \<Rightarrow> token \<Rightarrow> pstate option" where
  "parse_step (PValue st) t = parse_value st t"
| "parse_step (PArrayOpen st) t =
     (if t = RBracket then Some (complete (JArray []) st) else parse_value (InArray [] # st) t)"
| "parse_step (PArrayNext xs st) t =
     (if t = Comma then Some (PValue (InArray xs # st))
      else if t = RBracket then Some (complete (JArray xs) st)
      else None)"
| "parse_step (PObjectOpen st) t =
     (case t of
        RBrace \<Rightarrow> Some (complete (JObject []) st)
      | TString k \<Rightarrow> Some (PColon [] k st)
      | _ \<Rightarrow> None)"
| "parse_step (PObjectNext ms st) t =
     (if t = Comma then Some (PKey ms st)
      else if t = RBrace then Some (complete (JObject ms) st)
      else None)"
| "parse_step (PKey ms st) t = (case t of TString k \<Rightarrow> Some (PColon ms k st) | _ \<Rightarrow> None)"
| "parse_step (PColon ms k st) t = (if t = Colon then Some (PValue (InMember ms k # st)) else None)"
| "parse_step (PDone v) t = None"

fun parse_tokens :: "pstate \<Rightarrow> token list \<Rightarrow> pstate option" where
  "parse_tokens p [] = Some p"
| "parse_tokens p (t # ts) =
     (case parse_step p t of None \<Rightarrow> None | Some p' \<Rightarrow> parse_tokens p' ts)"

definition JSON_parse :: "string \<Rightarrow> error + json" where
  "JSON_parse s =
     (case lex LDefault s of
        None \<Rightarrow> Inl SyntaxError
      | Some ts \<Rightarrow>
          (case parse_tokens (PValue []) ts of
             Some (PDone v) \<Rightarrow> Inr v
           | _ \<Rightarrow> Inl SyntaxError))"

text \<open>
  \<open>JSON.stringify\<close>, at the types the application stores. A string is quoted with the
  escapes of the language; an object lists its members in the order of the object
  literal that built it, and a member whose value is \<open>undefined\<close> is left out.
\<close>

fun join :: "string \<Rightarrow> string list \<Rightarrow> string" where
  "join sep [] = []"
| "join sep [x] = x"
| "join sep (x # y # ys) = x @ sep @ join sep (y # ys)"

definition hexdigit :: "nat \<Rightarrow> char" where
  "hexdigit n = ''0123456789abcdef'' ! n"

definition quote_char :: "char \<Rightarrow> string" where
  "quote_char c =
     (if c = CHR 0x22 then [CHR 0x5C, CHR 0x22]
      else if c = CHR 0x5C then [CHR 0x5C, CHR 0x5C]
      else if c = CHR 0x08 then [CHR 0x5C, CHR ''b'']
      else if c = CHR 0x0C then [CHR 0x5C, CHR ''f'']
      else if c = CHR 0x0A then [CHR 0x5C, CHR ''n'']
      else if c = CHR 0x0D then [CHR 0x5C, CHR ''r'']
      else if c = CHR 0x09 then [CHR 0x5C, CHR ''t'']
      else if (of_char c :: nat) < 0x20
        then [CHR 0x5C] @ ''u00'' @ [hexdigit (of_char c div 16), hexdigit (of_char c mod 16)]
      else [c])"

definition stringify_string :: "string \<Rightarrow> string" where
  "stringify_string s = [CHR 0x22] @ concat (map quote_char s) @ [CHR 0x22]"

definition stringify_boolean :: "bool \<Rightarrow> string" where
  "stringify_boolean b = (if b then ''true'' else ''false'')"

definition stringify_object :: "(string \<times> string) list \<Rightarrow> string" where
  "stringify_object ms =
     ''{'' @ join '','' (map (\<lambda>(k, v). stringify_string k @ '':'' @ v) ms) @ ''}''"

definition stringify_array :: "string list \<Rightarrow> string" where
  "stringify_array xs = ''['' @ join '','' xs @ '']''"

definition optional_member :: "string \<Rightarrow> ('a \<Rightarrow> string) \<Rightarrow> 'a option \<Rightarrow> (string \<times> string) list" where
  "optional_member k f v = (case v of None \<Rightarrow> [] | Some x \<Rightarrow> [(k, f x)])"









section \<open>Data model (types.ts)\<close>

text \<open>
  The interfaces \<open>User\<close>, \<open>Gift\<close> and \<open>Presenca\<close> share the field names \<open>name\<close>, \<open>phone\<close>
  and \<open>id\<close>; here each carries its interface as a prefix. An optional field is an
  \<open>option\<close>, \<open>None\<close> for \<open>undefined\<close>.
\<close>

record User =
  user_name :: string
  user_phone :: string
  user_isAdmin :: bool

record Gift =
  gift_id :: string
  gift_name :: string
  description :: string
  imageUrl :: string
  link :: "string option"
  priceEstimate :: "int option"
  reservedBy :: "string option"
  isReserved :: bool

record Presenca =
  presenca_name :: string
  presenca_phone :: string
  attending :: bool
  adultsCount :: int
  childrenCount :: int
  guestsCount :: int
  date :: string

record EventConfig =
  eventDate :: string
  eventTime :: string
  location :: string
  locationLink :: "string option"
  rsvpDeadline :: string
  googleCalendarLink :: string

definition stringify_User :: "User \<Rightarrow> string" where
  "stringify_User u =
     stringify_object
       [(''name'', stringify_string (user_name u)),
        (''phone'', stringify_string (user_phone u)),
        (''isAdmin'', stringify_boolean (user_isAdmin u))]"

definition stringify_Gift :: "Gift \<Rightarrow> string" where
  "stringify_Gift g =
     stringify_object
       ([(''id'', stringify_string (gift_id g)),
         (''name'', stringify_string (gift_name g)),
         (''description'', stringify_string (description g)),
         (''imageUrl'', stringify_string (imageUrl g))]
        @ optional_member ''link'' stringify_string (link g)
        @ optional_member ''priceEstimate'' int_toString (priceEstimate g)
        @ [(''isReserved'', stringify_boolean (isReserved g))]
        @ optional_member ''reservedBy'' stringify_string (reservedBy g))"

definition stringify_Presenca :: "Presenca \<Rightarrow> string" where
  "stringify_Presenca p =
     stringify_object
       [(''name'', stringify_string (presenca_name p)),
        (''phone'', stringify_string (presenca_phone p)),
        (''attending'', stringify_boolean (attending p)),
        (''adultsCount'', int_toString (adultsCount p)),
        (''childrenCount'', int_toString (childrenCount p)),
        (''guestsCount'', int_toString (guestsCount p)),
        (''date'', stringify_string (date p))]"





section \<open>Constants (constants.ts)\<close>

definition INITIAL_GIFTS :: "Gift list" where
  "INITIAL_GIFTS =
     [\<lparr>gift_id = ''1'',
       gift_name = ''Jogo de Jantar 20 Pe'' @ [CHR 0xE7] @ ''as'',
       description = ''Conjunto de pratos de porcelana branca Oxford para ocasi'' @ [CHR 0xF5] @ ''es especiais.'',
       imageUrl = ''https://images.unsplash.com/photo-1574362848149-11496d93a7c7?auto=format&fit=crop&q=80&w=600'',
       link = Some ''https://www.amazon.com.br/s?k=jogo+de+jantar+porcelana'',
       priceEstimate = None, reservedBy = None, isReserved = False\<rparr>,
      \<lparr>gift_id = ''2'',
       gift_name = ''Fritadeira El'' @ [CHR 0xE9] @ ''trica Airfryer'',
       description = ''Airfryer potente (4L) para nossas receitas saud'' @ [CHR 0xE1] @ ''veis de final de semana.'',
       imageUrl = ''https://images.unsplash.com/photo-1626071494702-420443e2ee43?auto=format&fit=crop&q=80&w=600'',
       link = Some ''https://www.magazineluiza.com.br/busca/airfryer/'',
       priceEstimate = None, reservedBy = None, isReserved = False\<rparr>,
      \<lparr>gift_id = ''3'',
       gift_name = ''Jogo de Toalhas Gigante'',
       description = ''Kit banho e rosto em algod'' @ [CHR 0xE3] @ ''o eg'' @ [CHR 0xED] @ ''pcio, cor off-white.'',
       imageUrl = ''https://images.unsplash.com/photo-1584622650111-993a426fbf0a?auto=format&fit=crop&q=80&w=600'',
       link = Some ''https://www.tokstok.com.br/banho/jogos-de-toalha'',
       priceEstimate = None, reservedBy = None, isReserved = False\<rparr>,
      \<lparr>gift_id = ''4'',
       gift_name = ''Aspirador de P'' @ [CHR 0xF3] @ '' Rob'' @ [CHR 0xF4],
       description = ''Para nos ajudar a manter o novo lar sempre impec'' @ [CHR 0xE1] @ ''vel.'',
       imageUrl = ''https://images.unsplash.com/photo-1518314916381-77a37c2a49ae?auto=format&fit=crop&q=80&w=600'',
       link = Some ''https://www.mercadolivre.com.br/aspirador-robo'',
       priceEstimate = None, reservedBy = None, isReserved = False\<rparr>]"

definition DEFAULT_CONFIG :: EventConfig where
  "DEFAULT_CONFIG =
     \<lparr>eventDate = ''2024-12-15'',
      eventTime = ''18:00'',
      location = ''Rua das Flores, 123 - Apt 42, S'' @ [CHR 0xE3] @ ''o Paulo'',
      locationLink = Some ''https://maps.app.goo.gl/3fX3B7F1V8C2D5E6'',
      rsvpDeadline = ''2024-12-01'',
      googleCalendarLink = ''https://calendar.google.com/calendar/render?action=TEMPLATE&text=Ch'' @ [CHR 0xE1] @ ''+de+Casa+Nova+-+Nosso+Novo+Lar&dates=20241215T210000Z/20241216T010000Z&details=Esperamos+voc'' @ [CHR 0xEA] @ ''s+para+celebrar+nossa+conquista!&location=Rua+das+Flores,+123+-+Apt+42,+S'' @ [CHR 0xE3] @ ''o+Paulo''\<rparr>"

definition USER_STORAGE_KEY :: string where
  "USER_STORAGE_KEY = ''housewarming_user''"


definition GIFTS_STORAGE_KEY :: string where
  "GIFTS_STORAGE_KEY = ''housewarming_gifts''"

definition RSVP_STORAGE_KEY :: string where
  "RSVP_STORAGE_KEY = ''housewarming_reservas_presenca''"



section \<open>Helpers and schemas (App.tsx)\<close>



text \<open>
  A schema returns its issues, each the path of a field and the message; a value is
  valid when there is none. The form resolver calls the handler only on a valid value.
\<close>

type_synonym issue = "string \<times> string"


record PresencaForm =
  form_attending :: bool
  form_adults :: number
  form_children :: number

text \<open>\<open>z.number().min(lo, lo_msg).max(hi, hi_msg)\<close> at the field \<open>path\<close>.\<close>

definition number_min_max :: "string \<Rightarrow> int \<Rightarrow> string \<Rightarrow> int \<Rightarrow> string \<Rightarrow> number \<Rightarrow> issue list" where
  "number_min_max path lo lo_msg hi hi_msg x =
     (case x of
        NaN \<Rightarrow> [(path, ''Expected number, received nan'')]
      | Num n \<Rightarrow>
          (if n < lo then [(path, lo_msg)] else [])
          @ (if hi < n then [(path, hi_msg)] else []))"

definition presencaSchema :: "PresencaForm \<Rightarrow> issue list" where
  "presencaSchema d =
     number_min_max ''adults'' 1 (''M'' @ [CHR 0xED] @ ''nimo 1 adulto'')
        10 (''M'' @ [CHR 0xE1] @ ''ximo 10 adultos'') (form_adults d)
     @ number_min_max ''children'' 0 (''M'' @ [CHR 0xED] @ ''nimo 0'')
        10 (''M'' @ [CHR 0xE1] @ ''ximo 10 crian'' @ [CHR 0xE7] @ ''as'') (form_children d)"

text \<open>\<open>String.prototype.slice\<close> with \<open>0 \<le> start \<le> end\<close>; both ends are clamped to the length.\<close>

definition slice :: "nat \<Rightarrow> nat \<Rightarrow> string \<Rightarrow> string" where
  "slice start stop s = take (stop - start) (drop start s)"


section \<open>The application state and its handlers (App.tsx)\<close>

text \<open>
  The state of \<open>App\<close>: the \<open>useState\<close> cells the handlers below read and write, and
  \<open>localStorage\<close>, a map from keys to stored strings. A handler takes the state and
  returns the state after its calls to the setters and to \<open>localStorage\<close>.
\<close>

record App =
  user :: "User option"
  isAdmin :: bool
  gifts :: "Gift list"
  confirmacoes :: "Presenca list"
  config :: EventConfig
  uploadedImage :: "string option"
  localStorage :: "string \<Rightarrow> string option"

definition saveGifts :: "Gift list \<Rightarrow> App \<Rightarrow> App" where
  "saveGifts updated a =
     a\<lparr>gifts := updated,
       localStorage := (localStorage a)(GIFTS_STORAGE_KEY \<mapsto> stringify_array (map stringify_Gift updated))\<rparr>"

definition handleReserve :: "string \<Rightarrow> App \<Rightarrow> App" where
  "handleReserve gid a =
     (case user a of
        None \<Rightarrow> a
      | Some u \<Rightarrow>
          saveGifts
            (map (\<lambda>g. if gift_id g = gid then g\<lparr>isReserved := True, reservedBy := Some (user_name u)\<rparr> else g)
               (gifts a))
            a)"

definition handleCancelReserve :: "string \<Rightarrow> App \<Rightarrow> App" where
  "handleCancelReserve gid a =
     saveGifts
       (map (\<lambda>g. if gift_id g = gid then g\<lparr>isReserved := False, reservedBy := None\<rparr> else g)
          (gifts a))
       a"

text \<open>\<open>x || d\<close> on a string that may be \<open>null\<close> or \<open>undefined\<close>: the empty string is falsy too.\<close>

fun or_else :: "string option \<Rightarrow> string \<Rightarrow> string" where
  "or_else None d = d"
| "or_else (Some s) d = (if s = [] then d else s)"

record GiftForm =
  form_name :: string
  form_description :: string
  form_imageUrl :: "string option"
  form_link :: "string option"

text \<open>
  \<open>onAddGift\<close> reads the clock twice (\<open>Date.now()\<close>, milliseconds): once for the
  placeholder image and once for the id.
\<close>

definition onAddGift :: "GiftForm \<Rightarrow> nat \<Rightarrow> nat \<Rightarrow> App \<Rightarrow> App" where
  "onAddGift data now_image now_id a =
     (let finalImageUrl =
            or_else (uploadedImage a)
              (or_else (form_imageUrl data)
                 (''https://picsum.photos/seed/'' @ nat_toString now_image @ ''/600/400''));
          newGift =
            \<lparr>gift_id = nat_toString now_id,
             gift_name = form_name data,
             description = form_description data,
             imageUrl = finalImageUrl,
             link = form_link data,
             priceEstimate = None,
             reservedBy = None,
             isReserved = False\<rparr>
      in (saveGifts (gifts a @ [newGift]) a)\<lparr>uploadedImage := None\<rparr>)"

definition handleRemoveGift :: "string \<Rightarrow> App \<Rightarrow> App" where
  "handleRemoveGift gid a = saveGifts (filter (\<lambda>g. gift_id g \<noteq> gid) (gifts a)) a"

text \<open>\<open>Array.prototype.findIndex\<close>: the first index whose element satisfies \<open>p\<close>, or \<open>-1\<close>.\<close>

fun findIndex :: "('a \<Rightarrow> bool) \<Rightarrow> 'a list \<Rightarrow> int" where
  "findIndex p [] = - 1"
| "findIndex p (x # xs) =
     (if p x then 0 else (let i = findIndex p xs in if i = - 1 then - 1 else i + 1))"

text \<open>\<open>Number(x) || 0\<close>: \<open>NaN\<close> and \<open>0\<close> are falsy.\<close>

fun number_or_zero :: "number \<Rightarrow> int" where
  "number_or_zero NaN = 0"
| "number_or_zero (Num n) = (if n = 0 then 0 else n)"

text \<open>\<open>now\<close> is \<open>new Date().toISOString()\<close> at the call.\<close>

definition onConfirmReservaPresenca :: "PresencaForm \<Rightarrow> string \<Rightarrow> App \<Rightarrow> App" where
  "onConfirmReservaPresenca data now a =
     (case user a of
        None \<Rightarrow> a
      | Some u \<Rightarrow>
          (let adults = number_or_zero (form_adults data);
               children = number_or_zero (form_children data);
               newPresenca =
                 \<lparr>presenca_name = user_name u,
                  presenca_phone = user_phone u,
                  attending = form_attending data,
                  adultsCount = adults,
                  childrenCount = children,
                  guestsCount = adults + children,
                  date = now\<rparr>;
               existingIndex = findIndex (\<lambda>c. presenca_phone c = user_phone u) (confirmacoes a);
               updated =
                 (if existingIndex > - 1 then (confirmacoes a)[nat existingIndex := newPresenca]
                  else confirmacoes a @ [newPresenca])
           in a\<lparr>confirmacoes := updated,
                localStorage := (localStorage a)(RSVP_STORAGE_KEY \<mapsto> stringify_array (map stringify_Presenca updated))\<rparr>))"

text \<open>
  \<open>subPresenca(onConfirmReservaPresenca)\<close>: the form's submit validates the values with
  \<open>presencaSchema\<close> and calls the handler when there is no issue.
\<close>

definition submitPresenca :: "PresencaForm \<Rightarrow> string \<Rightarrow> App \<Rightarrow> issue list + App" where
  "submitPresenca data now a =
     (if presencaSchema data = [] then Inr (onConfirmReservaPresenca data now a)
      else Inl (presencaSchema data))"


text \<open>The \<open>onSave\<close> that \<open>App\<close> passes to \<open>UserAuthModal\<close>.\<close>

definition onSave :: "User \<Rightarrow> App \<Rightarrow> App" where
  "onSave u a =
     a\<lparr>user := Some u,
       localStorage := (localStorage a)(USER_STORAGE_KEY \<mapsto> stringify_User u)\<rparr>"

text \<open>The aggregates of the administrator's panel.\<close>

definition totalPessoas :: "Presenca list \<Rightarrow> int" where
  "totalPessoas cs = foldl (\<lambda>acc c. if attending c then acc + guestsCount c else acc) 0 cs"

definition totalAdultos :: "Presenca list \<Rightarrow> int" where
  "totalAdultos cs = foldl (\<lambda>acc c. if attending c then acc + adultsCount c else acc) 0 cs"

definition totalCriancas :: "Presenca list \<Rightarrow> int" where
  "totalCriancas cs = foldl (\<lambda>acc c. if attending c then acc + childrenCount c else acc) 0 cs"

definition totalNaoVao :: "Presenca list \<Rightarrow> nat" where
  "totalNaoVao cs = length (filter (\<lambda>c. \<not> attending c) cs)"

text \<open>
  \<open>GiftCard\<close> and \<open>GiftDetails\<close> render one of three controls for a gift, by the same
  conditional: the button that calls \<open>onReserve\<close>, the button that calls \<open>onCancel\<close>, or
  a notice without a handler.
\<close>

datatype control = ReserveButton | CancelButton | Unavailable

definition isMine :: "User option \<Rightarrow> Gift \<Rightarrow> bool" where
  "isMine currentUser gift =
     (case currentUser of None \<Rightarrow> False | Some u \<Rightarrow> reservedBy gift = Some (user_name u))"

definition gift_control :: "Gift \<Rightarrow> User option \<Rightarrow> control" where
  "gift_control gift currentUser =
     (if \<not> isReserved gift then ReserveButton
      else if isMine currentUser gift then CancelButton
      else Unavailable)"

subsection \<open>Cold start\<close>

text \<open>The \<open>useState\<close> defaults: the state of the first render, before the effect runs.\<close>

definition App_initial :: "(string \<Rightarrow> string option) \<Rightarrow> App" where
  "App_initial ls =
     \<lparr>user = None, isAdmin = False, gifts = [], confirmacoes = [], config = DEFAULT_CONFIG,
      uploadedImage = None, localStorage = ls\<rparr>"

text \<open>
  \<open>localStorage.getItem(k)\<close> followed by \<open>JSON.parse\<close> when the item is truthy: an
  absent key and the empty string are both falsy and are not parsed.
\<close>

definition read_item :: "(string \<Rightarrow> string option) \<Rightarrow> string \<Rightarrow> error + json option" where
  "read_item ls k =
     (case ls k of
        None \<Rightarrow> Inr None
      | Some s \<Rightarrow>
          (if s = [] then Inr None
           else (case JSON_parse s of Inl e \<Rightarrow> Inl e | Inr j \<Rightarrow> Inr (Some j))))"




subsection \<open>The identity form (UserAuthModal)\<close>







subsection \<open>Sequences of calls\<close>

text \<open>
  The operations on the catalog, as the events of a session: a guest identifies
  (\<open>onSave\<close>), and the four handlers that write the catalog.
\<close>

datatype catalog_event =
    Identify User
  | Reserve string
  | Cancel string
  | AddItem GiftForm nat nat
  | RemoveItem string

fun catalog_step :: "App \<Rightarrow> catalog_event \<Rightarrow> App" where
  "catalog_step a (Identify u) = onSave u a"
| "catalog_step a (Reserve gid) = handleReserve gid a"
| "catalog_step a (Cancel gid) = handleCancelReserve gid a"
| "catalog_step a (AddItem data now_image now_id) = onAddGift data now_image now_id a"
| "catalog_step a (RemoveItem gid) = handleRemoveGift gid a"

text \<open>
  A submit call of the attendance form: the identity of the session in which it is made,
  the values of the form and the clock. A call that fails validation changes nothing.
\<close>

type_synonym submit_call = "User option \<times> PresencaForm \<times> string"

fun submit_step :: "App \<Rightarrow> submit_call \<Rightarrow> App" where
  "submit_step a (u, data, now) =
     (case submitPresenca data now (a\<lparr>user := u\<rparr>) of
        Inl issues \<Rightarrow> a\<lparr>user := u\<rparr>
      | Inr a' \<Rightarrow> a')"

text \<open>
  The reading of \<open>the last successful submit for a contact\<close>: a call succeeds when an
  identity is present and the form is valid; the record it submits has the identity's
  name and phone, the form's values, their sum and the time of the call.
\<close>

fun successful_for :: "string \<Rightarrow> submit_call \<Rightarrow> bool" where
  "successful_for c (u, data, now) =
     (case u of None \<Rightarrow> False | Some v \<Rightarrow> user_phone v = c \<and> presencaSchema data = [])"

fun submitted_record :: "submit_call \<Rightarrow> Presenca option" where
  "submitted_record (Some v, data, now) =
     (case (form_adults data, form_children data) of
        (Num n, Num k) \<Rightarrow>
          Some \<lparr>presenca_name = user_name v, presenca_phone = user_phone v,
                attending = form_attending data, adultsCount = n, childrenCount = k,
                guestsCount = n + k, date = now\<rparr>
      | _ \<Rightarrow> None)"
| "submitted_record (None, data, now) = None"

definition last_successful :: "string \<Rightarrow> submit_call list \<Rightarrow> submit_call option" where
  "last_successful c calls =
     (case filter (successful_for c) calls of [] \<Rightarrow> None | x # xs \<Rightarrow> Some (last (x # xs)))"

subsection \<open>The invariant of a gift\<close>

definition reservation_invariant :: "Gift \<Rightarrow> bool" where
  "reservation_invariant g = ((\<not> isReserved g) = (reservedBy g = None))"

section \<open>What the handlers do to the catalog\<close>

lemma gifts_saveGifts: "gifts (saveGifts updated a) = updated"
  by (simp add: saveGifts_def)

lemma gifts_handleReserve:
  "gifts (handleReserve gid a) =
     (case user a of
        None \<Rightarrow> gifts a
      | Some u \<Rightarrow>
          map (\<lambda>g. if gift_id g = gid then g\<lparr>isReserved := True, reservedBy := Some (user_name u)\<rparr> else g)
            (gifts a))"
  by (simp add: handleReserve_def gifts_saveGifts split: option.split)

lemma gifts_handleCancelReserve:
  "gifts (handleCancelReserve gid a) =
     map (\<lambda>g. if gift_id g = gid then g\<lparr>isReserved := False, reservedBy := None\<rparr> else g) (gifts a)"
  by (simp add: handleCancelReserve_def gifts_saveGifts)

lemma gifts_onAddGift:
  "\<exists>g. gifts (onAddGift data n1 n2 a) = gifts a @ [g] \<and> \<not> isReserved g \<and> reservedBy g = None"
  by (simp add: onAddGift_def gifts_saveGifts Let_def)

lemma gifts_handleRemoveGift:
  "gifts (handleRemoveGift gid a) = filter (\<lambda>g. gift_id g \<noteq> gid) (gifts a)"
  by (simp add: handleRemoveGift_def gifts_saveGifts)

lemma gifts_onSave: "gifts (onSave u a) = gifts a"
  by (simp add: onSave_def)

lemma user_onSave: "user (onSave u a) = Some u"
  by (simp add: onSave_def)

lemma user_saveGifts: "user (saveGifts updated a) = user a"
  by (simp add: saveGifts_def)

lemma user_handleReserve: "user (handleReserve gid a) = user a"
  by (simp add: handleReserve_def user_saveGifts split: option.split)

lemma user_handleCancelReserve: "user (handleCancelReserve gid a) = user a"
  by (simp add: handleCancelReserve_def user_saveGifts)

lemma user_onAddGift: "user (onAddGift data n1 n2 a) = user a"
  by (simp add: onAddGift_def user_saveGifts Let_def)

lemma user_handleRemoveGift: "user (handleRemoveGift gid a) = user a"
  by (simp add: handleRemoveGift_def user_saveGifts)

lemma gifts_onAddGift_eq:
  "gifts (onAddGift data n1 n2 a) =
     gifts a @
       [\<lparr>gift_id = nat_toString n2, gift_name = form_name data,
         description = form_description data,
         imageUrl = or_else (uploadedImage a)
           (or_else (form_imageUrl data) (''https://picsum.photos/seed/'' @ nat_toString n1 @ ''/600/400'')),
         link = form_link data, priceEstimate = None, reservedBy = None, isReserved = False\<rparr>]"
  by (simp add: onAddGift_def gifts_saveGifts Let_def)

lemma map_gift_id_cancel:
  "map gift_id (map (\<lambda>g. if gift_id g = i then g\<lparr>isReserved := False, reservedBy := None\<rparr> else g) xs)
     = map gift_id xs"
  by (induction xs) simp_all

lemma reserve_cancel_reserve:
  "map (\<lambda>g. if gift_id g = i then g\<lparr>isReserved := True, reservedBy := Some n\<rparr> else g)
     (map (\<lambda>g. if gift_id g = i then g\<lparr>isReserved := False, reservedBy := None\<rparr> else g)
        (map (\<lambda>g. if gift_id g = i then g\<lparr>isReserved := True, reservedBy := Some m\<rparr> else g) xs))
   = map (\<lambda>g. if gift_id g = i then g\<lparr>isReserved := True, reservedBy := Some n\<rparr> else g) xs"
  by (induction xs) simp_all

text \<open>Every item with the targeted id carries the written reservation after the \<open>map\<close>.\<close>

lemma reserved_in_map:
  assumes "g \<in> set (map (\<lambda>g. if gift_id g = i then g\<lparr>isReserved := b, reservedBy := r\<rparr> else g) xs)"
    and "gift_id g = i"
  shows "isReserved g = b \<and> reservedBy g = r"
proof -
  from assms(1) obtain x where x: "g = (if gift_id x = i then x\<lparr>isReserved := b, reservedBy := r\<rparr> else x)"
    unfolding set_map by (rule imageE)
  show ?thesis
  proof (cases "gift_id x = i")
    case True
    with x have "g = x\<lparr>isReserved := b, reservedBy := r\<rparr>" by simp
    then show ?thesis by simp
  next
    case False
    with x have "g = x" by simp
    with False assms(2) show ?thesis by simp
  qed
qed

section \<open>Reservation (C1, C7)\<close>

text \<open>
  \<^bold>\<open>C1\<close>, as the code has it. \<open>handleReserve\<close> does not look at the reservation state
  of the item and has no error to report: without an identity it does nothing; with
  one it writes \<open>isReserved = true\<close> and the caller's name on every item with the given
  id, whoever held it before. An item that is already reserved is protected by the view
  alone: the control that calls \<open>onReserve\<close> is rendered exactly while \<open>isReserved\<close> is
  false.
\<close>

theorem C1_reserve_overwrites:
  "(user a = None \<longrightarrow> handleReserve i a = a)
   \<and> (user a = Some u \<longrightarrow>
        gifts (handleReserve i a) =
          map (\<lambda>g. if gift_id g = i then g\<lparr>isReserved := True, reservedBy := Some (user_name u)\<rparr> else g)
            (gifts a)
        \<and> (\<forall>g \<in> set (gifts (handleReserve i a)).
              gift_id g = i \<longrightarrow> isReserved g \<and> reservedBy g = Some (user_name u)))
   \<and> ((gift_control g currentUser = ReserveButton) = (\<not> isReserved g))"
proof (intro conjI impI ballI)
  assume "user a = None"
  then show "handleReserve i a = a" by (simp add: handleReserve_def)
next
  assume u: "user a = Some u"
  show eq: "gifts (handleReserve i a) =
      map (\<lambda>g. if gift_id g = i then g\<lparr>isReserved := True, reservedBy := Some (user_name u)\<rparr> else g)
        (gifts a)"
    by (simp only: gifts_handleReserve u option.case)
  fix h
  assume "h \<in> set (gifts (handleReserve i a))" "gift_id h = i"
  then have "isReserved h = True \<and> reservedBy h = Some (user_name u)"
    unfolding eq by (rule reserved_in_map)
  then show "isReserved h" "reservedBy h = Some (user_name u)" by simp_all
next
  show "(gift_control g currentUser = ReserveButton) = (\<not> isReserved g)"
    by (simp add: gift_control_def)
qed

text \<open>
  Item 1 of the seed catalog, held by Ana: Bruno's call takes it over, while the view
  offers Bruno no control for it.
\<close>

theorem C1_reserve_overwrites_witness:
  "map (\<lambda>g. (gift_id g, isReserved g, reservedBy g))
     (gifts (handleReserve ''1''
        (onSave \<lparr>user_name = ''Bruno'', user_phone = ''(11) 90000-0002'', user_isAdmin = False\<rparr>
           ((App_initial Map.empty)
              \<lparr>gifts := map (\<lambda>g. if gift_id g = ''1'' then g\<lparr>isReserved := True, reservedBy := Some ''Ana''\<rparr> else g)
                          INITIAL_GIFTS\<rparr>))))
   = [(''1'', True, Some ''Bruno''), (''2'', False, None), (''3'', False, None), (''4'', False, None)]
   \<and> gift_control
        (hd (map (\<lambda>g. if gift_id g = ''1'' then g\<lparr>isReserved := True, reservedBy := Some ''Ana''\<rparr> else g)
               INITIAL_GIFTS))
        (Some \<lparr>user_name = ''Bruno'', user_phone = ''(11) 90000-0002'', user_isAdmin = False\<rparr>) = Unavailable"
proof -
  let ?Bruno = "\<lparr>user_name = ''Bruno'', user_phone = ''(11) 90000-0002'', user_isAdmin = False\<rparr>"
  let ?gs = "map (\<lambda>g. if gift_id g = ''1'' then g\<lparr>isReserved := True, reservedBy := Some ''Ana''\<rparr> else g)
               INITIAL_GIFTS"
  let ?a = "onSave ?Bruno ((App_initial Map.empty)\<lparr>gifts := ?gs\<rparr>)"
  have u: "user ?a = Some ?Bruno" by (simp only: user_onSave)
  have g: "gifts ?a = ?gs" by (simp add: gifts_onSave)
  from C1_reserve_overwrites [of ?a "''1''" ?Bruno "hd ?gs" "Some ?Bruno"] u
  have 1: "gifts (handleReserve ''1'' ?a) =
          map (\<lambda>g. if gift_id g = ''1'' then g\<lparr>isReserved := True, reservedBy := Some (user_name ?Bruno)\<rparr> else g)
            (gifts ?a)"
    and 2: "(gift_control (hd ?gs) (Some ?Bruno) = ReserveButton) = (\<not> isReserved (hd ?gs))"
    by blast+
  have "map (\<lambda>g. (gift_id g, isReserved g, reservedBy g)) (gifts (handleReserve ''1'' ?a))
     = [(''1'', True, Some ''Bruno''), (''2'', False, None), (''3'', False, None), (''4'', False, None)]"
    unfolding 1 g by (simp add: INITIAL_GIFTS_def)
  moreover have "gift_control (hd ?gs) (Some ?Bruno) = Unavailable"
    using 2 by (simp add: INITIAL_GIFTS_def gift_control_def isMine_def)
  ultimately show ?thesis by blast
qed

text \<open>
  Against C1 as stated: in the state of a cold start on an empty store (the defaults,
  with the seed catalog) Ana reserves item 1 and then Bruno calls reserve on the same
  item. The second call is not refused; the item is Bruno's.
\<close>

theorem C1_counterexample:
  "reservedBy (hd (gifts (foldl catalog_step ((App_initial Map.empty)\<lparr>gifts := INITIAL_GIFTS\<rparr>)
      [Identify \<lparr>user_name = ''Ana'', user_phone = ''(11) 90000-0001'', user_isAdmin = False\<rparr>,
       Reserve ''1'']))) = Some ''Ana''
   \<and> reservedBy (hd (gifts (foldl catalog_step ((App_initial Map.empty)\<lparr>gifts := INITIAL_GIFTS\<rparr>)
      [Identify \<lparr>user_name = ''Ana'', user_phone = ''(11) 90000-0001'', user_isAdmin = False\<rparr>,
       Reserve ''1'',
       Identify \<lparr>user_name = ''Bruno'', user_phone = ''(11) 90000-0002'', user_isAdmin = False\<rparr>,
       Reserve ''1'']))) = Some ''Bruno''"
  by (simp add: gifts_handleReserve user_onSave gifts_onSave INITIAL_GIFTS_def)

text \<open>
  \<^bold>\<open>C7\<close>. \<open>handleCancelReserve\<close> clears \<open>isReserved\<close> and \<open>reservedBy\<close> of every item with
  the given id, in any state and whoever holds the item, and keeps the catalog's ids.
  After reserve by A, cancel, and reserve by B (who identifies in between), the item is
  reserved by B and every other item is as it was.
\<close>

theorem C7_cancel_then_reserve:
  "(\<forall>g \<in> set (gifts (handleCancelReserve i x)). gift_id g = i \<longrightarrow> \<not> isReserved g \<and> reservedBy g = None)
   \<and> map gift_id (gifts (handleCancelReserve i x)) = map gift_id (gifts x)
   \<and> (user a = Some A \<longrightarrow>
        gifts (handleReserve i (onSave B (handleCancelReserve i (handleReserve i a)))) =
          map (\<lambda>g. if gift_id g = i then g\<lparr>isReserved := True, reservedBy := Some (user_name B)\<rparr> else g)
            (gifts a)
        \<and> (\<forall>g \<in> set (gifts (handleReserve i (onSave B (handleCancelReserve i (handleReserve i a))))).
              gift_id g = i \<longrightarrow> isReserved g \<and> reservedBy g = Some (user_name B)))"
proof (intro conjI impI ballI)
  fix g
  assume "g \<in> set (gifts (handleCancelReserve i x))" "gift_id g = i"
  then have "isReserved g = False \<and> reservedBy g = None"
    unfolding gifts_handleCancelReserve by (rule reserved_in_map)
  then show "\<not> isReserved g" "reservedBy g = None" by simp_all
next
  show "map gift_id (gifts (handleCancelReserve i x)) = map gift_id (gifts x)"
    by (simp only: gifts_handleCancelReserve map_gift_id_cancel)
next
  assume A: "user a = Some A"
  let ?a3 = "handleReserve i (onSave B (handleCancelReserve i (handleReserve i a)))"
  show eq: "gifts ?a3 =
      map (\<lambda>g. if gift_id g = i then g\<lparr>isReserved := True, reservedBy := Some (user_name B)\<rparr> else g)
        (gifts a)"
    by (simp only: gifts_handleReserve user_onSave gifts_onSave gifts_handleCancelReserve
        A option.case reserve_cancel_reserve)
  fix g
  assume "g \<in> set (gifts ?a3)" "gift_id g = i"
  then have "isReserved g = True \<and> reservedBy g = Some (user_name B)"
    unfolding eq by (rule reserved_in_map)
  then show "isReserved g" "reservedBy g = Some (user_name B)" by simp_all
qed

theorem C7_cancel_then_reserve_witness:
  "map (\<lambda>g. (gift_id g, isReserved g, reservedBy g))
     (gifts (handleReserve ''1''
        (onSave \<lparr>user_name = ''Bruno'', user_phone = ''(11) 90000-0002'', user_isAdmin = False\<rparr>
          (handleCancelReserve ''1''
            (handleReserve ''1''
              (onSave \<lparr>user_name = ''Ana'', user_phone = ''(11) 90000-0001'', user_isAdmin = False\<rparr>
                ((App_initial Map.empty)\<lparr>gifts := INITIAL_GIFTS\<rparr>)))))))
   = [(''1'', True, Some ''Bruno''), (''2'', False, None), (''3'', False, None), (''4'', False, None)]"
proof -
  let ?Ana = "\<lparr>user_name = ''Ana'', user_phone = ''(11) 90000-0001'', user_isAdmin = False\<rparr>"
  let ?Bruno = "\<lparr>user_name = ''Bruno'', user_phone = ''(11) 90000-0002'', user_isAdmin = False\<rparr>"
  let ?a = "onSave ?Ana ((App_initial Map.empty)\<lparr>gifts := INITIAL_GIFTS\<rparr>)"
  have u: "user ?a = Some ?Ana" by (simp only: user_onSave)
  have g: "gifts ?a = INITIAL_GIFTS" by (simp add: gifts_onSave)
  from C7_cancel_then_reserve [of "''1''" ?a ?a ?Ana ?Bruno] u
  have "gifts (handleReserve ''1'' (onSave ?Bruno (handleCancelReserve ''1'' (handleReserve ''1'' ?a)))) =
          map (\<lambda>g. if gift_id g = ''1'' then g\<lparr>isReserved := True, reservedBy := Some (user_name ?Bruno)\<rparr> else g)
            (gifts ?a)"
    by blast
  then show ?thesis
    unfolding g by (simp add: INITIAL_GIFTS_def)
qed

section \<open>The invariant of the catalog (C3)\<close>

lemma catalog_step_invariant:
  assumes "list_all reservation_invariant (gifts a)"
  shows "list_all reservation_invariant (gifts (catalog_step a e))"
proof (cases e)
  case (Identify u)
  with assms show ?thesis by (simp add: gifts_onSave)
next
  case (Reserve gid)
  with assms show ?thesis
    by (cases "user a") (auto simp: gifts_handleReserve list_all_iff reservation_invariant_def)
next
  case (Cancel gid)
  with assms show ?thesis
    by (auto simp: gifts_handleCancelReserve list_all_iff reservation_invariant_def)
next
  case (AddItem data n1 n2)
  obtain g where "gifts (onAddGift data n1 n2 a) = gifts a @ [g]" "\<not> isReserved g" "reservedBy g = None"
    using gifts_onAddGift by blast
  with assms AddItem show ?thesis
    by (simp add: reservation_invariant_def)
next
  case (RemoveItem gid)
  with assms show ?thesis
    by (auto simp: gifts_handleRemoveGift list_all_iff)
qed

lemma catalog_run_invariant:
  "list_all reservation_invariant (gifts a) \<Longrightarrow>
   list_all reservation_invariant (gifts (foldl catalog_step a es))"
  by (induction es arbitrary: a) (simp_all add: catalog_step_invariant)

lemma seed_invariant: "list_all reservation_invariant INITIAL_GIFTS"
  by (simp add: INITIAL_GIFTS_def reservation_invariant_def)

text \<open>
  \<^bold>\<open>C3\<close>. From a state whose catalog is the seed catalog, after any sequence of
  reserve, cancel, add and remove calls (with guests identifying at any point in
  between), every gift of the catalog has \<open>isReserved = false\<close> exactly when
  \<open>reservedBy\<close> is absent.
\<close>

theorem C3_reservation_invariant:
  assumes "gifts a = INITIAL_GIFTS"
  shows "\<forall>g \<in> set (gifts (foldl catalog_step a es)). (\<not> isReserved g) = (reservedBy g = None)"
  using catalog_run_invariant [of a es] seed_invariant assms
  by (simp add: list_all_iff reservation_invariant_def)

text \<open>
  A session on the seed catalog: Ana identifies and reserves item 1, an item is added
  and reserved, item 1 is released and item 3 removed.
\<close>

theorem C3_reservation_invariant_witness:
  "gifts ((App_initial Map.empty)\<lparr>gifts := INITIAL_GIFTS\<rparr>) = INITIAL_GIFTS
   \<and> list_all (\<lambda>g. (\<not> isReserved g) = (reservedBy g = None))
        (gifts (foldl catalog_step ((App_initial Map.empty)\<lparr>gifts := INITIAL_GIFTS\<rparr>)
          [Identify \<lparr>user_name = ''Ana'', user_phone = ''(11) 90000-0001'', user_isAdmin = False\<rparr>,
           Reserve ''1'',
           AddItem \<lparr>form_name = ''Liquidificador'',
                    form_description = ''Liquidificador de alta pot'' @ [CHR 0xEA] @ ''ncia'',
                    form_imageUrl = None, form_link = None\<rparr> 1732100000000 1732100000000,
           Reserve ''1732100000000'',
           Cancel ''1'',
           RemoveItem ''3'']))
   \<and> map (\<lambda>g. (gift_id g, isReserved g, reservedBy g))
        (gifts (foldl catalog_step ((App_initial Map.empty)\<lparr>gifts := INITIAL_GIFTS\<rparr>)
          [Identify \<lparr>user_name = ''Ana'', user_phone = ''(11) 90000-0001'', user_isAdmin = False\<rparr>,
           Reserve ''1'',
           AddItem \<lparr>form_name = ''Liquidificador'',
                    form_description = ''Liquidificador de alta pot'' @ [CHR 0xEA] @ ''ncia'',
                    form_imageUrl = None, form_link = None\<rparr> 1732100000000 1732100000000,
           Reserve ''1732100000000'',
           Cancel ''1'',
           RemoveItem ''3'']))
      = [(''1'', False, None), (''2'', False, None), (''4'', False, None),
         (''1732100000000'', True, Some ''Ana'')]"
proof (intro conjI)
  let ?a = "(App_initial Map.empty)\<lparr>gifts := INITIAL_GIFTS\<rparr>"
  show g: "gifts ?a = INITIAL_GIFTS" by simp
  show "list_all (\<lambda>g. (\<not> isReserved g) = (reservedBy g = None))
        (gifts (foldl catalog_step ?a
          [Identify \<lparr>user_name = ''Ana'', user_phone = ''(11) 90000-0001'', user_isAdmin = False\<rparr>,
           Reserve ''1'',
           AddItem \<lparr>form_name = ''Liquidificador'',
                    form_description = ''Liquidificador de alta pot'' @ [CHR 0xEA] @ ''ncia'',
                    form_imageUrl = None, form_link = None\<rparr> 1732100000000 1732100000000,
           Reserve ''1732100000000'',
           Cancel ''1'',
           RemoveItem ''3'']))"
    using C3_reservation_invariant [OF g] unfolding list_all_iff by blast
  have n: "nat_toString 1732100000000 = ''1732100000000''"
    by (simp add: nat_toString.simps)
  show "map (\<lambda>g. (gift_id g, isReserved g, reservedBy g))
        (gifts (foldl catalog_step ?a
          [Identify \<lparr>user_name = ''Ana'', user_phone = ''(11) 90000-0001'', user_isAdmin = False\<rparr>,
           Reserve ''1'',
           AddItem \<lparr>form_name = ''Liquidificador'',
                    form_description = ''Liquidificador de alta pot'' @ [CHR 0xEA] @ ''ncia'',
                    form_imageUrl = None, form_link = None\<rparr> 1732100000000 1732100000000,
           Reserve ''1732100000000'',
           Cancel ''1'',
           RemoveItem ''3'']))
      = [(''1'', False, None), (''2'', False, None), (''4'', False, None),
         (''1732100000000'', True, Some ''Ana'')]"
    by (simp add: gifts_handleReserve gifts_handleCancelReserve gifts_handleRemoveGift gifts_onSave
        user_onSave user_handleReserve user_handleCancelReserve user_onAddGift user_handleRemoveGift
        gifts_onAddGift_eq n INITIAL_GIFTS_def)
qed

section \<open>Attendance: aggregates and validation (C4, C5)\<close>

lemma foldl_conditional_sum:
  "foldl (\<lambda>acc c. if P c then acc + f c else acc) (z :: int) cs = z + sum_list (map f (filter P cs))"
  by (induction cs arbitrary: z) simp_all

text \<open>
  \<^bold>\<open>C4\<close>. The four aggregates are the sums of \<open>guestsCount\<close>, \<open>adultsCount\<close> and
  \<open>childrenCount\<close> over the attending records and the number of records that do not
  attend. On the three records of the scenario (the party size of the declining record
  is arbitrary) they are 4, 3, 1 and 1.
\<close>

theorem C4_aggregates:
  "totalPessoas cs = sum_list (map guestsCount (filter attending cs))
   \<and> totalAdultos cs = sum_list (map adultsCount (filter attending cs))
   \<and> totalCriancas cs = sum_list (map childrenCount (filter attending cs))
   \<and> totalNaoVao cs = length (filter (\<lambda>c. \<not> attending c) cs)
   \<and> (let records =
          [\<lparr>presenca_name = n1, presenca_phone = p1, attending = True, adultsCount = 2,
             childrenCount = 1, guestsCount = 2 + 1, date = d1\<rparr>,
           \<lparr>presenca_name = n2, presenca_phone = p2, attending = True, adultsCount = 1,
             childrenCount = 0, guestsCount = 1 + 0, date = d2\<rparr>,
           \<lparr>presenca_name = n3, presenca_phone = p3, attending = False, adultsCount = x,
             childrenCount = y, guestsCount = x + y, date = d3\<rparr>]
        in totalPessoas records = 4 \<and> totalAdultos records = 3 \<and> totalCriancas records = 1
           \<and> totalNaoVao records = 1)"
  by (simp add: totalPessoas_def totalAdultos_def totalCriancas_def totalNaoVao_def foldl_conditional_sum)

text \<open>
  \<^bold>\<open>C5\<close>, as the code has it. \<open>presencaSchema\<close> does not read \<open>attending\<close>: a submission
  is valid, and reaches the handler, exactly when adults is a number from 1 to 10 and
  children a number from 0 to 10, whether the guest attends or not. With 0 or 11 adults
  it is refused.
\<close>

theorem C5_validation_unconditional:
  "presencaSchema (d\<lparr>form_attending := b\<rparr>) = presencaSchema d
   \<and> (presencaSchema d = []) =
       (\<exists>n k. form_adults d = Num n \<and> form_children d = Num k \<and> 1 \<le> n \<and> n \<le> 10 \<and> 0 \<le> k \<and> k \<le> 10)
   \<and> (\<exists>a'. submitPresenca d now a = Inr a') = (presencaSchema d = [])
   \<and> presencaSchema (d\<lparr>form_adults := Num 0\<rparr>) \<noteq> []
   \<and> presencaSchema (d\<lparr>form_adults := Num 11\<rparr>) \<noteq> []"
  by (cases "form_adults d"; cases "form_children d")
     (auto simp: presencaSchema_def number_min_max_def submitPresenca_def)

text \<open>
  Against C5 as stated: a guest who declines (\<open>attending = false\<close>) and whose form holds
  0 adults is refused with the message of the lower bound.
\<close>

theorem C5_counterexample:
  "submitPresenca \<lparr>form_attending = False, form_adults = Num 0, form_children = Num 0\<rparr>
     ''2024-11-20T12:00:00.000Z''
     (onSave \<lparr>user_name = ''Ana'', user_phone = ''(11) 90000-0001'', user_isAdmin = False\<rparr>
        ((App_initial Map.empty)\<lparr>gifts := INITIAL_GIFTS\<rparr>))
   = Inl [(''adults'', ''M'' @ [CHR 0xED] @ ''nimo 1 adulto'')]"
  by (simp add: submitPresenca_def presencaSchema_def number_min_max_def)

section \<open>The phone mask (C10)\<close>



lemma filter_slice_digits:
  "filter is_digit (slice i j (filter is_digit s)) = slice i j (filter is_digit s)"
  unfolding slice_def by (rule filter_True) (auto dest!: in_set_takeD in_set_dropD)

























section \<open>Attendance: one record per phone (C2)\<close>

lemma findIndex_ge: "- 1 \<le> findIndex p xs"
  by (induction xs) (simp_all add: Let_def)

lemma findIndex_none: "(findIndex p xs = - 1) = (\<forall>x \<in> set xs. \<not> p x)"
proof (induction xs)
  case Nil
  show ?case by simp
next
  case (Cons x xs)
  from findIndex_ge [of p xs] have "findIndex p xs + 1 \<noteq> - 1" by simp
  with Cons show ?case by (simp add: Let_def)
qed

lemma findIndex_found:
  "findIndex p xs \<noteq> - 1 \<Longrightarrow>
   nat (findIndex p xs) < length xs \<and> p (xs ! nat (findIndex p xs))"
proof (induction xs)
  case Nil
  then show ?case by simp
next
  case (Cons x xs)
  show ?case
  proof (cases "p x")
    case True
    then show ?thesis by simp
  next
    case False
    with Cons.prems have ne: "findIndex p xs \<noteq> - 1" by (simp add: Let_def split: if_splits)
    with findIndex_ge [of p xs] have pos: "0 \<le> findIndex p xs" by simp
    then have "nat (findIndex p xs + 1) = Suc (nat (findIndex p xs))" by simp
    with Cons.IH [OF ne] False ne show ?thesis by (simp add: Let_def)
  qed
qed

lemma filter_update_other:
  "i < length xs \<Longrightarrow> \<not> P (xs ! i) \<Longrightarrow> \<not> P y \<Longrightarrow> filter P (xs[i := y]) = filter P xs"
proof (induction xs arbitrary: i)
  case Nil
  then show ?case by simp
next
  case (Cons x xs)
  then show ?case by (cases i) simp_all
qed

lemma filter_key_absent: "k \<notin> f ` set xs \<Longrightarrow> filter (\<lambda>r. f r = k) xs = []"
  by (induction xs) auto

lemma filter_update_same:
  "distinct (map f xs) \<Longrightarrow> i < length xs \<Longrightarrow> f (xs ! i) = k \<Longrightarrow> f y = k \<Longrightarrow>
   filter (\<lambda>r. f r = k) (xs[i := y]) = [y]"
proof (induction xs arbitrary: i)
  case Nil
  then show ?case by simp
next
  case (Cons x xs)
  show ?case
  proof (cases i)
    case 0
    with Cons.prems have "k \<notin> f ` set xs" by auto
    with 0 Cons.prems show ?thesis by (simp add: filter_key_absent)
  next
    case (Suc j)
    with Cons.prems have j: "j < length xs" "f (xs ! j) = k" by simp_all
    then have "k \<in> f ` set xs" by (metis imageI nth_mem)
    with Cons.prems have "f x \<noteq> k" by auto
    with Suc Cons.IH [of j] Cons.prems j show ?thesis by simp
  qed
qed

lemma map_update_same_key:
  "i < length xs \<Longrightarrow> f (xs ! i) = f y \<Longrightarrow> map f (xs[i := y]) = map f xs"
  by (simp add: map_update list_update_same_conv)

text \<open>The record list after the handler, for a session with an identity.\<close>

lemma confirmacoes_onConfirm:
  assumes "user a = Some v"
  shows "confirmacoes (onConfirmReservaPresenca data now a) =
     (let new = \<lparr>presenca_name = user_name v, presenca_phone = user_phone v,
                 attending = form_attending data,
                 adultsCount = number_or_zero (form_adults data),
                 childrenCount = number_or_zero (form_children data),
                 guestsCount = number_or_zero (form_adults data) + number_or_zero (form_children data),
                 date = now\<rparr>;
          i = findIndex (\<lambda>c. presenca_phone c = user_phone v) (confirmacoes a)
      in if i > - 1 then (confirmacoes a)[nat i := new] else confirmacoes a @ [new])"
  using assms by (simp add: onConfirmReservaPresenca_def Let_def)

lemma valid_form:
  "presencaSchema data = [] \<Longrightarrow>
   \<exists>n k. form_adults data = Num n \<and> form_children data = Num k \<and> 1 \<le> n \<and> n \<le> 10 \<and> 0 \<le> k \<and> k \<le> 10"
  by (cases "form_adults data"; cases "form_children data")
     (auto simp: presencaSchema_def number_min_max_def split: if_splits)

lemma submit_step_success:
  assumes "presencaSchema data = []"
  shows "\<exists>p. submitted_record (Some v, data, now) = Some p \<and> presenca_phone p = user_phone v
     \<and> confirmacoes (submit_step a (Some v, data, now)) =
       (if findIndex (\<lambda>c. presenca_phone c = user_phone v) (confirmacoes a) > - 1
        then (confirmacoes a)[nat (findIndex (\<lambda>c. presenca_phone c = user_phone v) (confirmacoes a)) := p]
        else confirmacoes a @ [p])"
proof -
  from valid_form [OF assms] obtain n k where nk: "form_adults data = Num n" "form_children data = Num k"
    by blast
  have u: "user (a\<lparr>user := Some v\<rparr>) = Some v" by simp
  show ?thesis
    using assms nk
    by (simp add: submitPresenca_def confirmacoes_onConfirm [OF u] Let_def)
qed

lemma submit_step_failure:
  assumes "\<not> successful_for (user_phone v) (Some v, data, now)"
  shows "confirmacoes (submit_step a (Some v, data, now)) = confirmacoes a"
  using assms by (simp add: submitPresenca_def)

lemma submit_step_anonymous:
  "confirmacoes (submit_step a (None, data, now)) = confirmacoes a"
  by (simp add: submitPresenca_def onConfirmReservaPresenca_def)


lemma submit_step_phones:
  assumes "distinct (map presenca_phone (confirmacoes a))"
  shows "distinct (map presenca_phone (confirmacoes (submit_step a call)))
     \<and> take (length (confirmacoes a)) (map presenca_phone (confirmacoes (submit_step a call)))
         = map presenca_phone (confirmacoes a)
     \<and> length (confirmacoes a) \<le> length (confirmacoes (submit_step a call))"
proof -
  obtain u data now where call: "call = (u, data, now)" by (cases call)
  let ?cs = "confirmacoes a"
  show ?thesis
  proof (cases u)
    case None
    with assms call show ?thesis by (simp only: submit_step_anonymous) simp
  next
    case (Some v)
    show ?thesis
    proof (cases "presencaSchema data = []")
      case False
      then have "\<not> successful_for (user_phone v) (Some v, data, now)" by simp
      from submit_step_failure [OF this] assms call Some show ?thesis by simp
    next
      case True
      let ?i = "findIndex (\<lambda>c. presenca_phone c = user_phone v) ?cs"
      from submit_step_success [OF True, of v now a] obtain p where
        p: "presenca_phone p = user_phone v"
        and cs': "confirmacoes (submit_step a (Some v, data, now)) =
                  (if ?i > - 1 then ?cs[nat ?i := p] else ?cs @ [p])"
        by blast
      show ?thesis
      proof (cases "?i = - 1")
        case True
        then have "user_phone v \<notin> presenca_phone ` set ?cs"
          by (auto simp: findIndex_none)
        with True assms call Some cs' p show ?thesis by simp
      next
        case False
        from findIndex_found [OF False] have i: "nat ?i < length ?cs"
          "presenca_phone (?cs ! nat ?i) = user_phone v" by simp_all
        from False findIndex_ge [of "\<lambda>c. presenca_phone c = user_phone v" ?cs] have "?i > - 1" by simp
        with cs' have "confirmacoes (submit_step a (Some v, data, now)) = ?cs[nat ?i := p]" by simp
        moreover have "map presenca_phone (?cs[nat ?i := p]) = map presenca_phone ?cs"
          using i p by (simp add: map_update_same_key)
        ultimately show ?thesis using assms call Some
          by (simp del: submit_step.simps)
      qed
    qed
  qed
qed

lemma submit_step_filter:
  assumes "distinct (map presenca_phone (confirmacoes a))"
  shows "if successful_for c call
         then \<exists>p. submitted_record call = Some p
                \<and> filter (\<lambda>r. presenca_phone r = c) (confirmacoes (submit_step a call)) = [p]
         else filter (\<lambda>r. presenca_phone r = c) (confirmacoes (submit_step a call))
                = filter (\<lambda>r. presenca_phone r = c) (confirmacoes a)"
proof -
  obtain u data now where call: "call = (u, data, now)" by (cases call)
  let ?cs = "confirmacoes a"
  show ?thesis
  proof (cases u)
    case None
    with call show ?thesis by (simp only: submit_step_anonymous) simp
  next
    case (Some v)
    show ?thesis
    proof (cases "presencaSchema data = []")
      case False
      then have "\<not> successful_for (user_phone v) (Some v, data, now)" by simp
      from submit_step_failure [OF this] False call Some show ?thesis by simp
    next
      case True
      let ?i = "findIndex (\<lambda>c. presenca_phone c = user_phone v) ?cs"
      from submit_step_success [OF True, of v now a] obtain p where
        rec: "submitted_record (Some v, data, now) = Some p"
        and p: "presenca_phone p = user_phone v"
        and cs': "confirmacoes (submit_step a (Some v, data, now)) =
                  (if ?i > - 1 then ?cs[nat ?i := p] else ?cs @ [p])"
        by blast
      have ge: "- 1 \<le> ?i" by (rule findIndex_ge)
      show ?thesis
      proof (cases "user_phone v = c")
        case same: True
        have "filter (\<lambda>r. presenca_phone r = c) (confirmacoes (submit_step a (Some v, data, now))) = [p]"
        proof (cases "?i = - 1")
          case True
          then have "c \<notin> presenca_phone ` set ?cs"
            using same by (auto simp: findIndex_none)
          then have "filter (\<lambda>r. presenca_phone r = c) ?cs = []" by (rule filter_key_absent)
          with True cs' p same show ?thesis by simp
        next
          case False
          from findIndex_found [OF False] have i: "nat ?i < length ?cs"
            "presenca_phone (?cs ! nat ?i) = c" using same by simp_all
          from False ge have "?i > - 1" by simp
          with cs' have "confirmacoes (submit_step a (Some v, data, now)) = ?cs[nat ?i := p]" by simp
          moreover have "filter (\<lambda>r. presenca_phone r = c) (?cs[nat ?i := p]) = [p]"
            using assms i p same by (intro filter_update_same) simp_all
          ultimately show ?thesis by simp
        qed
        with same True call Some rec show ?thesis by simp
      next
        case other: False
        have "filter (\<lambda>r. presenca_phone r = c) (confirmacoes (submit_step a (Some v, data, now)))
            = filter (\<lambda>r. presenca_phone r = c) ?cs"
        proof (cases "?i = - 1")
          case True
          with cs' p other show ?thesis by simp
        next
          case False
          from findIndex_found [OF False] have i: "nat ?i < length ?cs"
            "presenca_phone (?cs ! nat ?i) = user_phone v" by simp_all
          from False ge have "?i > - 1" by simp
          with cs' have "confirmacoes (submit_step a (Some v, data, now)) = ?cs[nat ?i := p]" by simp
          moreover have "filter (\<lambda>r. presenca_phone r = c) (?cs[nat ?i := p]) = filter (\<lambda>r. presenca_phone r = c) ?cs"
            using i p other by (intro filter_update_other) simp_all
          ultimately show ?thesis by simp
        qed
        with other call Some show ?thesis by simp
      qed
    qed
  qed
qed

lemma last_successful_filter:
  "last_successful c calls =
     (if filter (successful_for c) calls = [] then None
      else Some (last (filter (successful_for c) calls)))"
  by (simp add: last_successful_def split: list.split)

lemma last_successful_snoc:
  "last_successful c (calls @ [call]) =
     (if successful_for c call then Some call else last_successful c calls)"
  by (simp add: last_successful_filter)

lemma submits_phones:
  assumes "distinct (map presenca_phone (confirmacoes a))"
  shows "distinct (map presenca_phone (confirmacoes (foldl submit_step a calls)))
     \<and> take (length (confirmacoes a)) (map presenca_phone (confirmacoes (foldl submit_step a calls)))
         = map presenca_phone (confirmacoes a)
     \<and> length (confirmacoes a) \<le> length (confirmacoes (foldl submit_step a calls))"
proof (induction calls rule: rev_induct)
  case Nil
  from assms show ?case by simp
next
  case (snoc call calls)
  let ?b = "foldl submit_step a calls"
  from snoc have d: "distinct (map presenca_phone (confirmacoes ?b))"
    and t: "take (length (confirmacoes a)) (map presenca_phone (confirmacoes ?b)) = map presenca_phone (confirmacoes a)"
    and l: "length (confirmacoes a) \<le> length (confirmacoes ?b)" by simp_all
  from submit_step_phones [OF d, of call]
  have d': "distinct (map presenca_phone (confirmacoes (submit_step ?b call)))"
    and t': "take (length (confirmacoes ?b)) (map presenca_phone (confirmacoes (submit_step ?b call)))
         = map presenca_phone (confirmacoes ?b)"
    and l': "length (confirmacoes ?b) \<le> length (confirmacoes (submit_step ?b call))" by simp_all
  have "take (length (confirmacoes a)) (map presenca_phone (confirmacoes (submit_step ?b call)))
      = take (length (confirmacoes a)) (take (length (confirmacoes ?b)) (map presenca_phone (confirmacoes (submit_step ?b call))))"
    using l by (simp add: min_def)
  also have "\<dots> = map presenca_phone (confirmacoes a)" unfolding t' by (rule t)
  finally show ?case using d' l l' by (simp del: submit_step.simps)
qed

lemma submits_filter:
  assumes "distinct (map presenca_phone (confirmacoes a))"
  shows "case last_successful c calls of
           None \<Rightarrow> filter (\<lambda>r. presenca_phone r = c) (confirmacoes (foldl submit_step a calls))
                     = filter (\<lambda>r. presenca_phone r = c) (confirmacoes a)
         | Some call \<Rightarrow> \<exists>p. submitted_record call = Some p
                \<and> filter (\<lambda>r. presenca_phone r = c) (confirmacoes (foldl submit_step a calls)) = [p]"
proof (induction calls rule: rev_induct)
  case Nil
  show ?case by (simp add: last_successful_def)
next
  case (snoc call calls)
  let ?b = "foldl submit_step a calls"
  from submits_phones [OF assms, of calls] have d: "distinct (map presenca_phone (confirmacoes ?b))" by simp
  show ?case
  proof (cases "successful_for c call")
    case True
    with submit_step_filter [OF d, of c call] show ?thesis
      by (simp add: last_successful_snoc del: submit_step.simps)
  next
    case False
    with submit_step_filter [OF d, of c call]
    have "filter (\<lambda>r. presenca_phone r = c) (confirmacoes (submit_step ?b call))
            = filter (\<lambda>r. presenca_phone r = c) (confirmacoes ?b)" by simp
    with False snoc show ?thesis
      by (auto simp add: last_successful_snoc simp del: submit_step.simps split: option.splits)
  qed
qed

lemma distinct_key_filter_le_1:
  "distinct (map f xs) \<Longrightarrow> length (filter (\<lambda>r. f r = k) xs) \<le> 1"
proof (induction xs)
  case Nil
  then show ?case by simp
next
  case (Cons x xs)
  show ?case
  proof (cases "f x = k")
    case True
    with Cons.prems have "k \<notin> f ` set xs" by auto
    then have "filter (\<lambda>r. f r = k) xs = []" by (rule filter_key_absent)
    with True show ?thesis by simp
  next
    case False
    with Cons show ?thesis by simp
  qed
qed

text \<open>
  \<^bold>\<open>C2\<close>. From records with pairwise different phones, after any sequence of submit
  calls: the phones are still pairwise different, so at most one record has the phone
  \<open>c\<close>; if some call succeeded for \<open>c\<close>, that record is the one the last such call
  submitted, and otherwise the records of \<open>c\<close> are untouched; the records present at the
  start keep their positions. A single successful call replaces the record of its phone
  at the index where it stands, or appends the new record when the phone is new.
\<close>

theorem C2_upsert_by_phone:
  assumes "distinct (map presenca_phone (confirmacoes a))"
  shows "distinct (map presenca_phone (confirmacoes (foldl submit_step a calls)))
     \<and> length (filter (\<lambda>r. presenca_phone r = c) (confirmacoes (foldl submit_step a calls))) \<le> 1
     \<and> (case last_successful c calls of
           None \<Rightarrow> filter (\<lambda>r. presenca_phone r = c) (confirmacoes (foldl submit_step a calls))
                     = filter (\<lambda>r. presenca_phone r = c) (confirmacoes a)
         | Some call \<Rightarrow> \<exists>p. submitted_record call = Some p
                \<and> filter (\<lambda>r. presenca_phone r = c) (confirmacoes (foldl submit_step a calls)) = [p])
     \<and> take (length (confirmacoes a)) (map presenca_phone (confirmacoes (foldl submit_step a calls)))
         = map presenca_phone (confirmacoes a)
     \<and> (presencaSchema data = [] \<longrightarrow>
          (\<exists>p. submitted_record (Some v, data, now) = Some p
             \<and> (if user_phone v \<in> presenca_phone ` set (confirmacoes a)
                then \<exists>i < length (confirmacoes a).
                       presenca_phone (confirmacoes a ! i) = user_phone v
                       \<and> confirmacoes (submit_step a (Some v, data, now)) = (confirmacoes a)[i := p]
                else confirmacoes (submit_step a (Some v, data, now)) = confirmacoes a @ [p])))"
proof (intro conjI impI)
  from submits_phones [OF assms, of calls]
  show d: "distinct (map presenca_phone (confirmacoes (foldl submit_step a calls)))"
    and "take (length (confirmacoes a)) (map presenca_phone (confirmacoes (foldl submit_step a calls)))
         = map presenca_phone (confirmacoes a)" by simp_all
  from d show "length (filter (\<lambda>r. presenca_phone r = c) (confirmacoes (foldl submit_step a calls))) \<le> 1"
    by (rule distinct_key_filter_le_1)
  show "case last_successful c calls of
           None \<Rightarrow> filter (\<lambda>r. presenca_phone r = c) (confirmacoes (foldl submit_step a calls))
                     = filter (\<lambda>r. presenca_phone r = c) (confirmacoes a)
         | Some call \<Rightarrow> \<exists>p. submitted_record call = Some p
                \<and> filter (\<lambda>r. presenca_phone r = c) (confirmacoes (foldl submit_step a calls)) = [p]"
    by (rule submits_filter [OF assms])
next
  assume valid: "presencaSchema data = []"
  let ?cs = "confirmacoes a"
  let ?i = "findIndex (\<lambda>c. presenca_phone c = user_phone v) ?cs"
  from submit_step_success [OF valid, of v now a] obtain p where
    rec: "submitted_record (Some v, data, now) = Some p"
    and cs': "confirmacoes (submit_step a (Some v, data, now)) =
              (if ?i > - 1 then ?cs[nat ?i := p] else ?cs @ [p])"
    by blast
  have ge: "- 1 \<le> ?i" by (rule findIndex_ge)
  show "\<exists>p. submitted_record (Some v, data, now) = Some p
         \<and> (if user_phone v \<in> presenca_phone ` set ?cs
            then \<exists>i < length ?cs. presenca_phone (?cs ! i) = user_phone v
                   \<and> confirmacoes (submit_step a (Some v, data, now)) = ?cs[i := p]
            else confirmacoes (submit_step a (Some v, data, now)) = ?cs @ [p])"
  proof (cases "?i = - 1")
    case True
    then have "user_phone v \<notin> presenca_phone ` set ?cs" by (auto simp: findIndex_none)
    with True cs' rec show ?thesis by simp
  next
    case False
    from findIndex_found [OF False] have i: "nat ?i < length ?cs"
      "presenca_phone (?cs ! nat ?i) = user_phone v" by simp_all
    then have "user_phone v \<in> presenca_phone ` set ?cs" by (metis imageI nth_mem)
    moreover from False ge cs' have "confirmacoes (submit_step a (Some v, data, now)) = ?cs[nat ?i := p]" by simp
    ultimately show ?thesis using rec i by (simp del: submit_step.simps) blast
  qed
qed


text \<open>
  Ana and Bruno confirm, Ana then declines, a fourth call fails validation and a fifth
  has no identity: Ana's record is the declining one, still in the first position.
\<close>

theorem C2_upsert_by_phone_witness:
  "filter (\<lambda>r. presenca_phone r = ''(11) 90000-0001'')
     (confirmacoes (foldl submit_step (App_initial Map.empty)
        [(Some \<lparr>user_name = ''Ana'', user_phone = ''(11) 90000-0001'', user_isAdmin = False\<rparr>,
          \<lparr>form_attending = True, form_adults = Num 2, form_children = Num 1\<rparr>, ''2024-11-20T10:00:00.000Z''),
         (Some \<lparr>user_name = ''Bruno'', user_phone = ''(11) 90000-0002'', user_isAdmin = False\<rparr>,
          \<lparr>form_attending = True, form_adults = Num 1, form_children = Num 0\<rparr>, ''2024-11-20T11:00:00.000Z''),
         (Some \<lparr>user_name = ''Ana'', user_phone = ''(11) 90000-0001'', user_isAdmin = False\<rparr>,
          \<lparr>form_attending = False, form_adults = Num 1, form_children = Num 0\<rparr>, ''2024-11-21T09:30:00.000Z''),
         (Some \<lparr>user_name = ''Ana'', user_phone = ''(11) 90000-0001'', user_isAdmin = False\<rparr>,
          \<lparr>form_attending = True, form_adults = Num 11, form_children = Num 0\<rparr>, ''2024-11-22T09:30:00.000Z''),
         (None,
          \<lparr>form_attending = True, form_adults = Num 3, form_children = Num 0\<rparr>, ''2024-11-23T09:30:00.000Z'')]))
   = [\<lparr>presenca_name = ''Ana'', presenca_phone = ''(11) 90000-0001'', attending = False,
       adultsCount = 1, childrenCount = 0, guestsCount = 1, date = ''2024-11-21T09:30:00.000Z''\<rparr>]
   \<and> confirmacoes (foldl submit_step (App_initial Map.empty)
        [(Some \<lparr>user_name = ''Ana'', user_phone = ''(11) 90000-0001'', user_isAdmin = False\<rparr>,
          \<lparr>form_attending = True, form_adults = Num 2, form_children = Num 1\<rparr>, ''2024-11-20T10:00:00.000Z''),
         (Some \<lparr>user_name = ''Bruno'', user_phone = ''(11) 90000-0002'', user_isAdmin = False\<rparr>,
          \<lparr>form_attending = True, form_adults = Num 1, form_children = Num 0\<rparr>, ''2024-11-20T11:00:00.000Z''),
         (Some \<lparr>user_name = ''Ana'', user_phone = ''(11) 90000-0001'', user_isAdmin = False\<rparr>,
          \<lparr>form_attending = False, form_adults = Num 1, form_children = Num 0\<rparr>, ''2024-11-21T09:30:00.000Z''),
         (Some \<lparr>user_name = ''Ana'', user_phone = ''(11) 90000-0001'', user_isAdmin = False\<rparr>,
          \<lparr>form_attending = True, form_adults = Num 11, form_children = Num 0\<rparr>, ''2024-11-22T09:30:00.000Z''),
         (None,
          \<lparr>form_attending = True, form_adults = Num 3, form_children = Num 0\<rparr>, ''2024-11-23T09:30:00.000Z'')])
     = [\<lparr>presenca_name = ''Ana'', presenca_phone = ''(11) 90000-0001'', attending = False,
         adultsCount = 1, childrenCount = 0, guestsCount = 1, date = ''2024-11-21T09:30:00.000Z''\<rparr>,
        \<lparr>presenca_name = ''Bruno'', presenca_phone = ''(11) 90000-0002'', attending = True,
         adultsCount = 1, childrenCount = 0, guestsCount = 1, date = ''2024-11-20T11:00:00.000Z''\<rparr>]"
proof (rule conjI)
  let ?Ana = "\<lparr>user_name = ''Ana'', user_phone = ''(11) 90000-0001'', user_isAdmin = False\<rparr>"
  let ?Bruno = "\<lparr>user_name = ''Bruno'', user_phone = ''(11) 90000-0002'', user_isAdmin = False\<rparr>"
  let ?calls =
       "[(Some ?Ana,
          \<lparr>form_attending = True, form_adults = Num 2, form_children = Num 1\<rparr>, ''2024-11-20T10:00:00.000Z''),
         (Some ?Bruno,
          \<lparr>form_attending = True, form_adults = Num 1, form_children = Num 0\<rparr>, ''2024-11-20T11:00:00.000Z''),
         (Some ?Ana,
          \<lparr>form_attending = False, form_adults = Num 1, form_children = Num 0\<rparr>, ''2024-11-21T09:30:00.000Z''),
         (Some ?Ana,
          \<lparr>form_attending = True, form_adults = Num 11, form_children = Num 0\<rparr>, ''2024-11-22T09:30:00.000Z''),
         (None,
          \<lparr>form_attending = True, form_adults = Num 3, form_children = Num 0\<rparr>, ''2024-11-23T09:30:00.000Z'')]"
  have d: "distinct (map presenca_phone (confirmacoes (App_initial Map.empty)))"
    by (simp add: App_initial_def)
  have l: "last_successful ''(11) 90000-0001'' ?calls =
      Some (Some ?Ana, \<lparr>form_attending = False, form_adults = Num 1, form_children = Num 0\<rparr>,
            ''2024-11-21T09:30:00.000Z'')"
    by (simp add: last_successful_def presencaSchema_def number_min_max_def)
  from C2_upsert_by_phone [OF d, of ?calls "''(11) 90000-0001''"]
  show "filter (\<lambda>r. presenca_phone r = ''(11) 90000-0001'')
     (confirmacoes (foldl submit_step (App_initial Map.empty) ?calls))
   = [\<lparr>presenca_name = ''Ana'', presenca_phone = ''(11) 90000-0001'', attending = False,
       adultsCount = 1, childrenCount = 0, guestsCount = 1, date = ''2024-11-21T09:30:00.000Z''\<rparr>]"
    unfolding l by (simp del: foldl.simps foldl_Cons foldl_Nil submit_step.simps)
  show "confirmacoes (foldl submit_step (App_initial Map.empty) ?calls)
     = [\<lparr>presenca_name = ''Ana'', presenca_phone = ''(11) 90000-0001'', attending = False,
         adultsCount = 1, childrenCount = 0, guestsCount = 1, date = ''2024-11-21T09:30:00.000Z''\<rparr>,
        \<lparr>presenca_name = ''Bruno'', presenca_phone = ''(11) 90000-0002'', attending = True,
         adultsCount = 1, childrenCount = 0, guestsCount = 1, date = ''2024-11-20T11:00:00.000Z''\<rparr>]"
    by (simp add: App_initial_def submitPresenca_def presencaSchema_def number_min_max_def
        onConfirmReservaPresenca_def Let_def)
qed

section \<open>Cold start and identity (C8, C9, C6)\<close>







lemma read_item_present:
  "ls k = Some s \<Longrightarrow> s \<noteq> [] \<Longrightarrow>
   read_item ls k = (case JSON_parse s of Inl e \<Rightarrow> Inl e | Inr j \<Rightarrow> Inr (Some j))"
  by (simp add: read_item_def)


















end
